theory Spec2Isabelle
  imports Complex_Main "HOL-Library.AList"
begin

section \<open>JavaScript numbers\<close>

text \<open>
  The composer computes with JavaScript numbers. A number is modelled as an exact real
  or one of the three special values of IEEE 754 arithmetic, so that a division by zero
  is the value the program gets (an infinity or NaN) and not HOL's \<open>x / 0 = 0\<close>.
  Rounding of finite results is not modelled, and there is a single zero (it stands for
  \<open>+0\<close>).
\<close>

datatype jsnum = Fin real | PosInf | NegInf | NaN

fun js_div :: "jsnum \<Rightarrow> jsnum \<Rightarrow> jsnum" where
  "js_div NaN b = NaN"
| "js_div a NaN = NaN"
| "js_div (Fin a) (Fin b) =
     (if b = 0 then (if 0 < a then PosInf else if a < 0 then NegInf else NaN)
      else Fin (a / b))"
| "js_div (Fin a) PosInf = Fin 0"
| "js_div (Fin a) NegInf = Fin 0"
| "js_div PosInf (Fin b) = (if b < 0 then NegInf else PosInf)"
| "js_div NegInf (Fin b) = (if b < 0 then PosInf else NegInf)"
| "js_div PosInf PosInf = NaN"
| "js_div PosInf NegInf = NaN"
| "js_div NegInf PosInf = NaN"
| "js_div NegInf NegInf = NaN"

fun js_mul :: "jsnum \<Rightarrow> jsnum \<Rightarrow> jsnum" where
  "js_mul NaN b = NaN"
| "js_mul a NaN = NaN"
| "js_mul (Fin a) (Fin b) = Fin (a * b)"
| "js_mul (Fin a) PosInf = (if a = 0 then NaN else if 0 < a then PosInf else NegInf)"
| "js_mul (Fin a) NegInf = (if a = 0 then NaN else if 0 < a then NegInf else PosInf)"
| "js_mul PosInf (Fin b) = (if b = 0 then NaN else if 0 < b then PosInf else NegInf)"
| "js_mul NegInf (Fin b) = (if b = 0 then NaN else if 0 < b then NegInf else PosInf)"
| "js_mul PosInf PosInf = PosInf"
| "js_mul PosInf NegInf = NegInf"
| "js_mul NegInf PosInf = NegInf"
| "js_mul NegInf NegInf = PosInf"

fun js_add :: "jsnum \<Rightarrow> jsnum \<Rightarrow> jsnum" where
  "js_add NaN b = NaN"
| "js_add a NaN = NaN"
| "js_add (Fin a) (Fin b) = Fin (a + b)"
| "js_add (Fin a) PosInf = PosInf"
| "js_add (Fin a) NegInf = NegInf"
| "js_add PosInf (Fin b) = PosInf"
| "js_add NegInf (Fin b) = NegInf"
| "js_add PosInf PosInf = PosInf"
| "js_add PosInf NegInf = NaN"
| "js_add NegInf PosInf = NaN"
| "js_add NegInf NegInf = NegInf"

fun js_neg :: "jsnum \<Rightarrow> jsnum" where
  "js_neg NaN = NaN"
| "js_neg (Fin a) = Fin (- a)"
| "js_neg PosInf = NegInf"
| "js_neg NegInf = PosInf"

definition js_sub :: "jsnum \<Rightarrow> jsnum \<Rightarrow> jsnum" where
  "js_sub a b = js_add a (js_neg b)"

text \<open>\<open>Math.min\<close> of two numbers: NaN if either is NaN, otherwise the smaller one.\<close>

fun Math_min :: "jsnum \<Rightarrow> jsnum \<Rightarrow> jsnum" where
  "Math_min NaN b = NaN"
| "Math_min a NaN = NaN"
| "Math_min NegInf b = NegInf"
| "Math_min a NegInf = NegInf"
| "Math_min PosInf b = b"
| "Math_min a PosInf = a"
| "Math_min (Fin a) (Fin b) = Fin (min a b)"

section \<open>Grid layout\<close>

record grid =
  cols :: int
  rows :: int

text \<open>
  \<open>getGridLayout\<close>: a lookup in the object literal \<open>layouts\<close> with the number as key;
  a key that is not there gives \<open>undefined\<close>, and \<open>||\<close> then takes the 1 x 1 grid.
\<close>

definition layouts :: "(int \<times> grid) list" where
  "layouts =
     [(2, \<lparr>cols = 1, rows = 2\<rparr>),
      (3, \<lparr>cols = 1, rows = 3\<rparr>),
      (4, \<lparr>cols = 2, rows = 2\<rparr>),
      (6, \<lparr>cols = 2, rows = 3\<rparr>),
      (9, \<lparr>cols = 3, rows = 3\<rparr>)]"

definition getGridLayout :: "int \<Rightarrow> grid" where
  "getGridLayout slidesPerPage =
     (case map_of layouts slidesPerPage of
        Some g \<Rightarrow> g
      | None \<Rightarrow> \<lparr>cols = 1, rows = 1\<rparr>)"

section \<open>The page composer\<close>

text \<open>The size of a source page, as \<open>getSize()\<close> returns it.\<close>

record size_rec =
  width :: jsnum
  height :: jsnum

text \<open>
  One \<open>drawPage\<close> call: the index of the source page whose copy is drawn, and the
  options \<open>x\<close>, \<open>y\<close>, \<open>width\<close>, \<open>height\<close> passed with it.
\<close>

record drawn =
  page_index :: int
  draw_x :: jsnum
  draw_y :: jsnum
  draw_width :: jsnum
  draw_height :: jsnum

definition pageWidth :: real where
  "pageWidth = 612"

definition pageHeight :: real where
  "pageHeight = 792"

definition padding :: real where
  "padding = 10"

definition slideWidth :: "int \<Rightarrow> real" where
  "slideWidth cols' = (pageWidth - padding * (of_int cols' + 1)) / of_int cols'"

definition slideHeight :: "int \<Rightarrow> real" where
  "slideHeight rows' = (pageHeight - padding * (of_int rows' + 1)) / of_int rows'"

text \<open>The position of cell \<open>j\<close>: the variables \<open>x\<close> and \<open>y\<close> of the drawing loop.\<close>

definition cell_x :: "int \<Rightarrow> real \<Rightarrow> int \<Rightarrow> real" where
  "cell_x cols' sw j = (let col = j mod cols' in padding + of_int col * (sw + padding))"

definition cell_y :: "int \<Rightarrow> real \<Rightarrow> int \<Rightarrow> real" where
  "cell_y cols' sh j =
     (let row = j div cols' in pageHeight - (padding + (of_int row + 1) * (sh + padding)))"

text \<open>
  The body of the drawing loop for the copy at position \<open>j\<close> of the batch: position,
  scale, centring, and the \<open>drawPage\<close> call. \<open>sw\<close> and \<open>sh\<close> are the loop's
  \<open>slideWidth\<close> and \<open>slideHeight\<close>.
\<close>

definition drawCopied :: "int \<Rightarrow> real \<Rightarrow> real \<Rightarrow> int \<Rightarrow> int \<times> size_rec \<Rightarrow> drawn" where
  "drawCopied cols' sw sh j copiedPage =
     (let x = cell_x cols' sw j;
          y = cell_y cols' sh j;
          sourceSize = snd copiedPage;
          sourceWidth = width sourceSize;
          sourceHeight = height sourceSize;
          scaleX = js_div (Fin sw) sourceWidth;
          scaleY = js_div (Fin sh) sourceHeight;
          scale = Math_min scaleX scaleY;
          scaledWidth = js_mul sourceWidth scale;
          scaledHeight = js_mul sourceHeight scale;
          offsetX = js_div (js_sub (Fin sw) scaledWidth) (Fin 2);
          offsetY = js_div (js_sub (Fin sh) scaledHeight) (Fin 2)
      in \<lparr>page_index = fst copiedPage,
          draw_x = js_add (Fin x) offsetX,
          draw_y = js_add (Fin y) offsetY,
          draw_width = scaledWidth,
          draw_height = scaledHeight\<rparr>)"

text \<open>The drawing loop over \<open>copiedPages\<close>, from position \<open>j\<close> on.\<close>

fun drawLoop :: "int \<Rightarrow> real \<Rightarrow> real \<Rightarrow> int \<Rightarrow> (int \<times> size_rec) list \<Rightarrow> drawn list" where
  "drawLoop cols' sw sh j [] = []"
| "drawLoop cols' sw sh j (copiedPage # rest) =
     drawCopied cols' sw sh j copiedPage # drawLoop cols' sw sh (j + 1) rest"

text \<open>The loop that collects the page indices of the batch starting at \<open>i\<close>.\<close>

function pageIndicesLoop :: "int \<Rightarrow> int \<Rightarrow> int \<Rightarrow> int \<Rightarrow> int list" where
  "pageIndicesLoop slidesPerPage totalPages i j =
     (if j < slidesPerPage \<and> i + j < totalPages
      then (i + j) # pageIndicesLoop slidesPerPage totalPages i (j + 1)
      else [])"
  by pat_completeness auto
termination
  by (relation "measure (\<lambda>(slidesPerPage, totalPages, i, j). nat (slidesPerPage - j))") auto

declare pageIndicesLoop.simps [simp del]

text \<open>
  \<open>copyPages\<close> copies the pages at the given indices; an index that is not a page of
  the source makes it throw (\<open>None\<close>).
\<close>

definition copyPages :: "size_rec list \<Rightarrow> int list \<Rightarrow> (int \<times> size_rec) list option" where
  "copyPages pages pageIndices =
     (if list_all (\<lambda>n. 0 \<le> n \<and> n < int (length pages)) pageIndices
      then Some (map (\<lambda>n. (n, pages ! nat n)) pageIndices)
      else None)"

text \<open>
  The batch loop \<open>for (let i = 0; i < totalPages; i += slidesPerPage)\<close>. Each round adds
  one output page, the list of the \<open>drawPage\<close> calls made on it. With
  \<open>slidesPerPage \<le> 0\<close> and a source that has pages the loop never ends: the result is
  \<open>None\<close>. \<open>Inl\<close> is a thrown error.
\<close>

partial_function (option) batchLoop ::
  "size_rec list \<Rightarrow> int \<Rightarrow> int \<Rightarrow> drawn list list \<Rightarrow> (string + drawn list list) option" where
  "batchLoop pages slidesPerPage i newPdfDoc =
     (if i < int (length pages) then
        (case copyPages pages (pageIndicesLoop slidesPerPage (int (length pages)) i 0) of
           None \<Rightarrow> Some (Inl ''copyPages: page index out of range'')
         | Some copiedPages \<Rightarrow>
             (let grid = getGridLayout slidesPerPage;
                  newPage = drawLoop (cols grid) (slideWidth (cols grid)) (slideHeight (rows grid))
                              0 copiedPages
              in batchLoop pages slidesPerPage (i + slidesPerPage) (newPdfDoc @ [newPage])))
      else Some (Inr newPdfDoc))"

declare batchLoop.simps [code]

text \<open>The in-memory part of \<open>mergeSlidesPerPage\<close>: from the loaded pages to the new document.\<close>

definition mergePages :: "size_rec list \<Rightarrow> int \<Rightarrow> (string + drawn list list) option" where
  "mergePages pages slidesPerPage = batchLoop pages slidesPerPage 0 []"

section \<open>Files, paths and external programs\<close>

text \<open>
  The filesystem is a list of the regular files, one entry per absolute path, in the
  order in which a directory listing returns them. Directories are not modelled: a
  directory exists as soon as it is named (so \<open>mkdirSync\<close> has no effect on the model),
  and \<open>path.resolve\<close> and \<open>path.join\<close> are modelled without the normalisation of
  \<open>.\<close> and \<open>..\<close> segments. Writing a file always succeeds.
\<close>

type_synonym filepath = string
type_synonym bytes = string

record file_entry =
  content :: bytes
  mtime :: int

type_synonym filesystem = "(filepath \<times> file_entry) list"

definition existsSync :: "filesystem \<Rightarrow> filepath \<Rightarrow> bool" where
  "existsSync fs p = (map_of fs p \<noteq> None)"

definition path_resolve :: "filepath \<Rightarrow> filepath \<Rightarrow> filepath" where
  "path_resolve cwd' p = (if p \<noteq> [] \<and> hd p = CHR ''/'' then p else cwd' @ ''/'' @ p)"

definition path_join :: "filepath \<Rightarrow> string \<Rightarrow> filepath" where
  "path_join dir name = dir @ ''/'' @ name"

definition path_basename :: "filepath \<Rightarrow> string" where
  "path_basename p = rev (takeWhile (\<lambda>c. c \<noteq> CHR ''/'') (rev p))"

definition path_extname :: "filepath \<Rightarrow> string" where
  "path_extname p =
     (let b = path_basename p;
          e = rev (takeWhile (\<lambda>c. c \<noteq> CHR ''.'') (rev b))
      in if CHR ''.'' \<notin> set b then []
         else if length e + 1 = length b then []
         else if b = ''..'' then []
         else CHR ''.'' # e)"

text \<open>\<open>path.basename(p, path.extname(p))\<close>: the base name without its extension.\<close>

definition path_basename_noext :: "filepath \<Rightarrow> string" where
  "path_basename_noext p =
     (let b = path_basename p in take (length b - length (path_extname p)) b)"

definition toLowerCase :: "char \<Rightarrow> char" where
  "toLowerCase c =
     (let n = (of_char c :: nat) in if 65 \<le> n \<and> n \<le> 90 then char_of (n + 32) else c)"

text \<open>\<open>s.replace(/\.pptx$/i, r)\<close>: only a suffix \<open>.pptx\<close>, in any letter case, is replaced.\<close>

definition replace_pptx :: "string \<Rightarrow> string \<Rightarrow> string" where
  "replace_pptx s r =
     (if 5 \<le> length s \<and> map toLowerCase (drop (length s - 5) s) = ''.pptx''
      then take (length s - 5) s @ r
      else s)"

text \<open>\<open>f.toLowerCase().endsWith('.pdf')\<close>\<close>

definition endsWith_pdf :: "string \<Rightarrow> bool" where
  "endsWith_pdf f = (4 \<le> length f \<and> map toLowerCase (drop (length f - 4) f) = ''.pdf'')"

text \<open>\<open>names.join(', ')\<close>\<close>

fun join_comma :: "string list \<Rightarrow> string" where
  "join_comma [] = []"
| "join_comma [a] = a"
| "join_comma (a # b # rest) = a @ '', '' @ join_comma (b # rest)"

subsection \<open>parseInt\<close>

text \<open>
  \<open>parseInt(s)\<close> without a radix: leading white space is skipped, a sign is read, a
  prefix \<open>0x\<close> selects base 16, and the longest run of digits that follows is the value;
  with no digit the result is NaN (\<open>None\<close>). Whatever follows the digits is ignored.
  White space is the ASCII part of what JavaScript skips, and the integer is exact.
\<close>

definition isWhiteSpace :: "char \<Rightarrow> bool" where
  "isWhiteSpace c = (of_char c \<in> set [9, 10, 11, 12, 13, 32 :: nat])"

definition digitValue :: "char \<Rightarrow> nat" where
  "digitValue c =
     (let n = (of_char c :: nat)
      in if 48 \<le> n \<and> n \<le> 57 then n - 48
         else if 97 \<le> n \<and> n \<le> 122 then n - 87
         else if 65 \<le> n \<and> n \<le> 90 then n - 55
         else 36)"

definition parseDigits :: "nat \<Rightarrow> string \<Rightarrow> nat option" where
  "parseDigits R s =
     (let Z = takeWhile (\<lambda>c. digitValue c < R) s
      in if Z = [] then None else Some (foldl (\<lambda>acc c. acc * R + digitValue c) 0 Z))"

definition parseInt :: "string \<Rightarrow> int option" where
  "parseInt s =
     (let S = dropWhile isWhiteSpace s;
          negative = (S \<noteq> [] \<and> hd S = CHR ''-'');
          S1 = (if S \<noteq> [] \<and> (hd S = CHR ''-'' \<or> hd S = CHR ''+'') then tl S else S);
          hex = (2 \<le> length S1 \<and> (take 2 S1 = ''0x'' \<or> take 2 S1 = ''0X''));
          R = (if hex then 16 else 10);
          S2 = (if hex then drop 2 S1 else S1)
      in case parseDigits R S2 of
           None \<Rightarrow> None
         | Some n \<Rightarrow> Some (if negative then - int n else int n))"

subsection \<open>The environment of a request\<close>

datatype exec_result = ExecOk | ExecError string string

text \<open>
  What the handler cannot decide itself is a parameter: the working directory, the time
  stamp given to a file the handler writes, what the two external programs do to the
  filesystem and whether they report an error (for LibreOffice with \<open>stderr\<close> and
  \<open>error.message\<close>), what pdf-lib makes of a file's bytes (the sizes of its pages, or
  the message of the error it throws), the bytes it saves for a document, and whether
  the transfer of the response fails.
\<close>

record env =
  cwd :: filepath
  now :: int
  libreoffice :: "filepath \<Rightarrow> filepath \<Rightarrow> filesystem \<Rightarrow> exec_result \<times> filesystem"
  ghostscript :: "filepath \<Rightarrow> filepath \<Rightarrow> filesystem \<Rightarrow> string option \<times> filesystem"
  PDFDocument_load :: "bytes \<Rightarrow> string + size_rec list"
  PDFDocument_save :: "drawn list list \<Rightarrow> bytes"
  transfer_fails :: bool

text \<open>What a request does, in order: the programs it runs, the files it touches, its answer.\<close>

datatype event =
    LibreOffice filepath filepath
  | Merge filepath int
  | Ghostscript filepath filepath
  | WriteFile filepath
  | CopyFile filepath filepath
  | Unlink filepath
  | SetTimeout filepath nat
  | Json nat string
  | Download filepath string bool

record world =
  files :: filesystem
  events :: "event list"

text \<open>
  A step of the handler ends normally, throws an error that the handler's \<open>catch\<close>
  receives, or leaves its promise pending for ever (an exception thrown inside the
  callback of \<open>exec\<close>, or a loop that does not end).
\<close>

datatype 'a result = Ok 'a world | Throw string world | Pending world

definition emit :: "event \<Rightarrow> world \<Rightarrow> world" where
  "emit e w = w\<lparr>events := events w @ [e]\<rparr>"

definition writeFileSync :: "env \<Rightarrow> filepath \<Rightarrow> bytes \<Rightarrow> world \<Rightarrow> world" where
  "writeFileSync env' p b w =
     emit (WriteFile p) (w\<lparr>files := AList.update p \<lparr>content = b, mtime = now env'\<rparr> (files w)\<rparr>)"

text \<open>\<open>copyFileSync\<close> throws when there is no source file.\<close>

definition copyFileSync :: "env \<Rightarrow> filepath \<Rightarrow> filepath \<Rightarrow> world \<Rightarrow> world option" where
  "copyFileSync env' src dest w =
     (case map_of (files w) src of
        None \<Rightarrow> None
      | Some f \<Rightarrow>
          Some (emit (CopyFile src dest)
                  (w\<lparr>files := AList.update dest \<lparr>content = content f, mtime = now env'\<rparr> (files w)\<rparr>)))"

text \<open>
  \<open>cleanupFile\<close>: \<open>fs.unlink\<close> is called if the file exists. The removal is
  asynchronous in the program and takes effect at once in the model; its failure would
  only be logged.
\<close>

definition cleanupFile :: "filepath \<Rightarrow> world \<Rightarrow> world" where
  "cleanupFile filePath w =
     (if existsSync (files w) filePath
      then emit (Unlink filePath) (w\<lparr>files := AList.delete filePath (files w)\<rparr>)
      else w)"

text \<open>The pending timers \<open>setTimeout(() => cleanupFile(p), ms)\<close> run after the handler.\<close>

fun timerPaths :: "event list \<Rightarrow> filepath list" where
  "timerPaths [] = []"
| "timerPaths (SetTimeout p ms # es) = p # timerPaths es"
| "timerPaths (e # es) = timerPaths es"

definition fireTimers :: "world \<Rightarrow> world" where
  "fireTimers w = fold cleanupFile (timerPaths (events w)) w"

subsection \<open>mergeSlidesPerPage and compressPdf\<close>

datatype merge_result = Returned bytes | Threw string | Diverged

definition mergeSlidesPerPage :: "env \<Rightarrow> filesystem \<Rightarrow> filepath \<Rightarrow> int \<Rightarrow> merge_result" where
  "mergeSlidesPerPage env' fs pdfPath slidesPerPage =
     (case map_of fs pdfPath of
        None \<Rightarrow> Threw ''ENOENT: no such file or directory''
      | Some f \<Rightarrow>
          (case PDFDocument_load env' (content f) of
             Inl message \<Rightarrow> Threw message
           | Inr pages \<Rightarrow>
               (case mergePages pages slidesPerPage of
                  None \<Rightarrow> Diverged
                | Some (Inl message) \<Rightarrow> Threw message
                | Some (Inr newPdfDoc) \<Rightarrow> Returned (PDFDocument_save env' newPdfDoc))))"

text \<open>
  \<open>compressPdf\<close> runs Ghostscript; on an error it copies the input to the output path
  and resolves. It never rejects. The copy runs inside the callback of \<open>exec\<close>: if it
  throws, nothing catches the exception and the promise stays pending.
\<close>

definition compressPdf :: "env \<Rightarrow> filepath \<Rightarrow> filepath \<Rightarrow> world \<Rightarrow> unit result" where
  "compressPdf env' inputPath outputPath w =
     (let r = ghostscript env' inputPath outputPath (files w);
          w1 = emit (Ghostscript inputPath outputPath) (w\<lparr>files := snd r\<rparr>)
      in case fst r of
           Some message \<Rightarrow>
             (case copyFileSync env' inputPath outputPath w1 of
                None \<Rightarrow> Pending w1
              | Some w2 \<Rightarrow> Ok () w2)
         | None \<Rightarrow> Ok () w1)"

section \<open>The /convert handler\<close>

text \<open>The uploaded file as multer hands it over, and the request.\<close>

record upload =
  path :: filepath
  originalname :: string

record request =
  req_file :: "upload option"
  body_slidesPerPage :: "string option"
  query_slidesPerPage :: "string option"

text \<open>\<open>a || b\<close> for a string that may be missing: the empty string is falsy.\<close>

definition or_else :: "string option \<Rightarrow> string \<Rightarrow> string" where
  "or_else a b = (case a of None \<Rightarrow> b | Some v \<Rightarrow> if v = [] then b else v)"

definition slidesPerPage_of :: "request \<Rightarrow> int option" where
  "slidesPerPage_of req =
     parseInt (or_else (body_slidesPerPage req) (or_else (query_slidesPerPage req) ''1''))"

definition validSlidesPerPage :: "int list" where
  "validSlidesPerPage = [1, 2, 3, 4, 6, 9]"

definition inputPath :: "env \<Rightarrow> upload \<Rightarrow> filepath" where
  "inputPath env' f = path_resolve (cwd env') (path f)"

definition outputDir :: "env \<Rightarrow> filepath" where
  "outputDir env' = path_resolve (cwd env') ''converted''"

definition baseFileName :: "upload \<Rightarrow> string" where
  "baseFileName f = replace_pptx (originalname f) []"

definition tempPdfPath :: "env \<Rightarrow> upload \<Rightarrow> filepath" where
  "tempPdfPath env' f = path_join (outputDir env') (baseFileName f @ ''_temp.pdf'')"

definition optimizedPdfPath :: "env \<Rightarrow> upload \<Rightarrow> filepath" where
  "optimizedPdfPath env' f = path_join (outputDir env') (baseFileName f @ ''_optimized.pdf'')"

definition finalPdfPath :: "env \<Rightarrow> upload \<Rightarrow> filepath" where
  "finalPdfPath env' f = path_join (outputDir env') (baseFileName f @ ''.pdf'')"

subsection \<open>Step 1: LibreOffice, and the search for its output\<close>

definition convertToPdf :: "env \<Rightarrow> upload \<Rightarrow> world \<Rightarrow> unit result" where
  "convertToPdf env' f w =
     (let r = libreoffice env' (inputPath env' f) (outputDir env') (files w);
          w1 = emit (LibreOffice (inputPath env' f) (outputDir env')) (w\<lparr>files := snd r\<rparr>)
      in case fst r of
           ExecError stderr message \<Rightarrow>
             Throw (''LibreOffice conversion failed: '' @ (if stderr = [] then message else stderr)) w1
         | ExecOk \<Rightarrow> Ok () w1)"

definition possibleNames :: "env \<Rightarrow> upload \<Rightarrow> string list" where
  "possibleNames env' f =
     [baseFileName f @ ''.pdf'',
      path_basename_noext (inputPath env' f) @ ''.pdf'',
      replace_pptx (originalname f) ''.pdf'']"

text \<open>The loop over the candidate names, left at the first one that exists.\<close>

fun firstExisting :: "filesystem \<Rightarrow> filepath \<Rightarrow> string list \<Rightarrow> filepath option" where
  "firstExisting fs dir [] = None"
| "firstExisting fs dir (name # names) =
     (let testPath = path_join dir name
      in if existsSync fs testPath then Some testPath else firstExisting fs dir names)"

text \<open>\<open>readdirSync\<close>: the names of the files directly in a directory, each with its entry.\<close>

definition readdirSync :: "filesystem \<Rightarrow> filepath \<Rightarrow> (string \<times> file_entry) list" where
  "readdirSync fs dir =
     map (\<lambda>pf. (drop (length dir + 1) (fst pf), snd pf))
       (filter (\<lambda>pf. take (length dir + 1) (fst pf) = dir @ ''/''
                    \<and> drop (length dir + 1) (fst pf) \<noteq> []
                    \<and> CHR ''/'' \<notin> set (drop (length dir + 1) (fst pf))) fs)"

text \<open>
  The fallback: the PDF files of the output directory, sorted by modification time,
  newest first (the sort is stable), and the first of them.
\<close>

definition mostRecentPdf :: "filesystem \<Rightarrow> filepath \<Rightarrow> filepath option" where
  "mostRecentPdf fs dir =
     (let pdfFiles = filter (\<lambda>nf. endsWith_pdf (fst nf)) (readdirSync fs dir);
          pdfPaths = sort_key (\<lambda>pf. - mtime (snd pf))
                       (map (\<lambda>nf. (path_join dir (fst nf), snd nf)) pdfFiles)
      in case pdfPaths of [] \<Rightarrow> None | pf # rest \<Rightarrow> Some (fst pf))"

definition findConvertedPdf :: "env \<Rightarrow> upload \<Rightarrow> filesystem \<Rightarrow> filepath option" where
  "findConvertedPdf env' f fs =
     (let libreOfficeOutput =
            (case firstExisting fs (outputDir env') (possibleNames env' f) of
               Some testPath \<Rightarrow> Some testPath
             | None \<Rightarrow> mostRecentPdf fs (outputDir env'))
      in case libreOfficeOutput of
           None \<Rightarrow> None
         | Some p \<Rightarrow> if existsSync fs p then Some p else None)"

subsection \<open>Step 2: merging, only if slidesPerPage > 1\<close>

text \<open>The result is \<open>pdfToCompress\<close>.\<close>

definition mergeStep :: "env \<Rightarrow> upload \<Rightarrow> int \<Rightarrow> filepath \<Rightarrow> world \<Rightarrow> filepath result" where
  "mergeStep env' f slidesPerPage libreOfficeOutput w =
     (if 1 < slidesPerPage then
        (let w1 = emit (Merge libreOfficeOutput slidesPerPage) w
         in case mergeSlidesPerPage env' (files w1) libreOfficeOutput slidesPerPage of
              Threw message \<Rightarrow> Throw message w1
            | Diverged \<Rightarrow> Pending w1
            | Returned mergedPdfBytes \<Rightarrow>
                Ok (tempPdfPath env' f) (writeFileSync env' (tempPdfPath env' f) mergedPdfBytes w1))
      else Ok libreOfficeOutput w)"

subsection \<open>Cleanup and delivery\<close>

text \<open>The cleanup of the temporary files after a successful compression.\<close>

definition cleanupTemporary :: "env \<Rightarrow> upload \<Rightarrow> filepath \<Rightarrow> world \<Rightarrow> world" where
  "cleanupTemporary env' f libreOfficeOutput w =
     (let w1 = cleanupFile (inputPath env' f) w;
          w2 = (if existsSync (files w1) libreOfficeOutput \<and> libreOfficeOutput \<noteq> finalPdfPath env' f
                then cleanupFile libreOfficeOutput w1 else w1);
          w3 = (if existsSync (files w2) (tempPdfPath env' f)
                then cleanupFile (tempPdfPath env' f) w2 else w2)
      in if existsSync (files w3) (optimizedPdfPath env' f)
            \<and> optimizedPdfPath env' f \<noteq> finalPdfPath env' f
         then cleanupFile (optimizedPdfPath env' f) w3 else w3)"

text \<open>
  \<open>res.download\<close> with its callback: the transfer fails if the file is not there or the
  connection breaks; then the error is logged and nothing else is done. Otherwise the
  removal of the final file is scheduled, 1000 ms later.
\<close>

definition deliver :: "env \<Rightarrow> upload \<Rightarrow> world \<Rightarrow> world" where
  "deliver env' f w =
     (let err = (\<not> existsSync (files w) (finalPdfPath env' f) \<or> transfer_fails env');
          w1 = emit (Download (finalPdfPath env' f) (baseFileName f @ ''.pdf'') (\<not> err)) w
      in if err then w1 else emit (SetTimeout (finalPdfPath env' f) 1000) w1)"

text \<open>The \<open>catch\<close> block.\<close>

definition catchBlock :: "env \<Rightarrow> upload \<Rightarrow> string \<Rightarrow> world \<Rightarrow> world" where
  "catchBlock env' f message w =
     (let w1 = cleanupFile (inputPath env' f) w;
          w2 = (if existsSync (files w1) (tempPdfPath env' f)
                then cleanupFile (tempPdfPath env' f) w1 else w1);
          w3 = (if existsSync (files w2) (optimizedPdfPath env' f)
                then cleanupFile (optimizedPdfPath env' f) w2 else w2);
          w4 = (if existsSync (files w3) (finalPdfPath env' f)
                then cleanupFile (finalPdfPath env' f) w3 else w3)
      in emit (Json 500 (if message = [] then ''Conversion failed.'' else message)) w4)"

text \<open>The \<open>try\<close> block, from the LibreOffice call to \<open>res.download\<close>.\<close>

definition tryBlock :: "env \<Rightarrow> upload \<Rightarrow> int \<Rightarrow> world \<Rightarrow> unit result" where
  "tryBlock env' f slidesPerPage w =
     (case convertToPdf env' f w of
        Throw message w1 \<Rightarrow> Throw message w1
      | Pending w1 \<Rightarrow> Pending w1
      | Ok u w1 \<Rightarrow>
          (case findConvertedPdf env' f (files w1) of
             None \<Rightarrow>
               Throw (''Converted PDF not found. Searched for: ''
                      @ join_comma (possibleNames env' f)) w1
           | Some libreOfficeOutput \<Rightarrow>
               (case mergeStep env' f slidesPerPage libreOfficeOutput w1 of
                  Throw message w2 \<Rightarrow> Throw message w2
                | Pending w2 \<Rightarrow> Pending w2
                | Ok pdfToCompress w2 \<Rightarrow>
                    (case compressPdf env' pdfToCompress (finalPdfPath env' f) w2 of
                       Throw message w3 \<Rightarrow> Throw message w3
                     | Pending w3 \<Rightarrow> Pending w3
                     | Ok u' w3 \<Rightarrow>
                         Ok () (deliver env' f (cleanupTemporary env' f libreOfficeOutput w3))))))"

text \<open>
  The handler of \<open>POST /convert\<close>, run on a filesystem; the result is the filesystem it
  leaves and everything it did.
\<close>

definition convert :: "env \<Rightarrow> request \<Rightarrow> filesystem \<Rightarrow> world" where
  "convert env' req fs =
     (let w = \<lparr>files = fs, events = []\<rparr>
      in case req_file req of
           None \<Rightarrow> emit (Json 400 ''No file uploaded.'') w
         | Some f \<Rightarrow>
             (case slidesPerPage_of req of
                None \<Rightarrow>
                  emit (Json 400 ''Invalid slidesPerPage. Must be 1, 2, 3, 4, 6, or 9.'')
                    (cleanupFile (path_resolve (cwd env') (path f)) w)
              | Some slidesPerPage \<Rightarrow>
                  if slidesPerPage \<notin> set validSlidesPerPage
                  then emit (Json 400 ''Invalid slidesPerPage. Must be 1, 2, 3, 4, 6, or 9.'')
                         (cleanupFile (path_resolve (cwd env') (path f)) w)
                  else (case tryBlock env' f slidesPerPage w of
                          Ok u w' \<Rightarrow> w'
                        | Throw message w' \<Rightarrow> catchBlock env' f message w'
                        | Pending w' \<Rightarrow> w')))"

subsection \<open>The handler of src/index.js\<close>

text \<open>
  The older handler has no slidesPerPage, no merging and no compression: it converts and
  sends the file LibreOffice wrote, and cleans up in the callback of the transfer.
\<close>

definition convert_index :: "env \<Rightarrow> request \<Rightarrow> filesystem \<Rightarrow> world" where
  "convert_index env' req fs =
     (let w = \<lparr>files = fs, events = []\<rparr>
      in case req_file req of
           None \<Rightarrow> emit (Json 400 ''No file uploaded.'') w
         | Some f \<Rightarrow>
             (let outputFileName = replace_pptx (originalname f) ''.pdf'';
                  outputPath = path_join (outputDir env') outputFileName;
                  r = libreoffice env' (inputPath env' f) (outputDir env') (files w);
                  w1 = emit (LibreOffice (inputPath env' f) (outputDir env')) (w\<lparr>files := snd r\<rparr>)
              in case fst r of
                   ExecError stderr message \<Rightarrow>
                     emit (Json 500 ''Conversion failed. Please ensure LibreOffice is installed and accessible in PATH.'')
                       (cleanupFile (inputPath env' f) w1)
                 | ExecOk \<Rightarrow>
                     if existsSync (files w1) outputPath then
                       (let err = transfer_fails env';
                            w2 = emit (Download outputPath outputFileName (\<not> err)) w1
                        in if err then w2
                           else cleanupFile outputPath (cleanupFile (inputPath env' f) w2))
                     else emit (Json 500 ''Converted file not found.'')
                            (cleanupFile (inputPath env' f) w1)))"

subsection \<open>What the spec calls naming the valid set\<close>



fun is_unlink :: "event \<Rightarrow> bool" where
  "is_unlink (Unlink p) = True"
| "is_unlink e = False"

section \<open>A sample deployment\<close>

text \<open>
  A concrete environment, used to run the definitions: LibreOffice writes
  \<open><name of the input>.pdf\<close> into the output directory, Ghostscript writes a smaller
  file, and the converted deck has three pages, the last one of width zero.
\<close>

definition sample_pages :: "size_rec list" where
  "sample_pages =
     [\<lparr>width = Fin 720, height = Fin 540\<rparr>,
      \<lparr>width = Fin 720, height = Fin 540\<rparr>,
      \<lparr>width = Fin 0, height = Fin 540\<rparr>]"

definition sample_env :: env where
  "sample_env =
     \<lparr>cwd = ''/app'',
      now = 7,
      libreoffice = (\<lambda>inp out fs.
        (ExecOk, AList.update (path_join out (path_basename_noext inp @ ''.pdf''))
                   \<lparr>content = ''pdf'', mtime = 5\<rparr> fs)),
      ghostscript = (\<lambda>inp out fs.
        (None, AList.update out \<lparr>content = ''small'', mtime = 6\<rparr> fs)),
      PDFDocument_load = (\<lambda>b. Inr sample_pages),
      PDFDocument_save = (\<lambda>doc. ''merged''),
      transfer_fails = False\<rparr>"

definition sample_upload :: upload where
  "sample_upload = \<lparr>path = ''uploads/3f2a'', originalname = ''deck.pptx''\<rparr>"

definition sample_fs :: filesystem where
  "sample_fs = [(''/app/uploads/3f2a'', \<lparr>content = ''pptx'', mtime = 1\<rparr>)]"

definition sample_request :: "string option \<Rightarrow> request" where
  "sample_request v =
     \<lparr>req_file = Some sample_upload, body_slidesPerPage = v, query_slidesPerPage = None\<rparr>"


definition sample_env_bad_pdf :: env where
  "sample_env_bad_pdf =
     sample_env\<lparr>PDFDocument_load := (\<lambda>b. Inl ''Failed to parse PDF document'')\<rparr>"

definition sample_env_transfer_fails :: env where
  "sample_env_transfer_fails = sample_env\<lparr>transfer_fails := True\<rparr>"

text \<open>An upload whose stored name is the deck's name, as src/index.js expects it.\<close>

definition sample_upload_named :: upload where
  "sample_upload_named = \<lparr>path = ''uploads/deck'', originalname = ''deck.pptx''\<rparr>"

section \<open>Properties of the composer\<close>















text \<open>
  Claim C3. \<open>getGridLayout\<close> maps 1 to (1,1), 2 to (1,2), 3 to (1,3), 4 to (2,2), 6 to
  (2,3) and 9 to (3,3); every other number gets the default grid (1,1); and for a
  supported number the grid has at least that many cells. Being a function of its
  argument alone, it is deterministic.
\<close>

theorem getGridLayout_table:
  "getGridLayout 1 = \<lparr>cols = 1, rows = 1\<rparr>
   \<and> getGridLayout 2 = \<lparr>cols = 1, rows = 2\<rparr>
   \<and> getGridLayout 3 = \<lparr>cols = 1, rows = 3\<rparr>
   \<and> getGridLayout 4 = \<lparr>cols = 2, rows = 2\<rparr>
   \<and> getGridLayout 6 = \<lparr>cols = 2, rows = 3\<rparr>
   \<and> getGridLayout 9 = \<lparr>cols = 3, rows = 3\<rparr>
   \<and> (n \<notin> {1, 2, 3, 4, 6, 9} \<longrightarrow> getGridLayout n = \<lparr>cols = 1, rows = 1\<rparr>)
   \<and> (n \<in> {1, 2, 3, 4, 6, 9} \<longrightarrow> n \<le> cols (getGridLayout n) * rows (getGridLayout n))"
  by (auto simp: getGridLayout_def layouts_def)

text \<open>The unsupported 5 and the supported 6.\<close>

theorem getGridLayout_table_witness:
  "(5::int) \<notin> {1, 2, 3, 4, 6, 9} \<and> getGridLayout 5 = \<lparr>cols = 1, rows = 1\<rparr>
   \<and> (6::int) \<in> {1, 2, 3, 4, 6, 9} \<and> 6 \<le> cols (getGridLayout 6) * rows (getGridLayout 6)"
  using getGridLayout_table [of 5] getGridLayout_table [of 6] by simp























section \<open>Properties of the handler\<close>


lemma events_emit: "events (emit e w) = events w @ [e]"
  by (simp add: emit_def)

lemma files_emit: "files (emit e w) = files w"
  by (simp add: emit_def)

lemma events_cleanupFile:
  "events (cleanupFile p w) = events w @ (if existsSync (files w) p then [Unlink p] else [])"
  by (simp add: cleanupFile_def emit_def)

lemma files_cleanupFile:
  "map_of (files (cleanupFile p w)) q = (if q = p then None else map_of (files w) q)"
  by (simp add: cleanupFile_def emit_def existsSync_def delete_conv')

lemma slidesPerPage_default:
  assumes "body_slidesPerPage req = None" and "query_slidesPerPage req = None"
  shows "slidesPerPage_of req = Some 1"
  using assms
  by (simp add: slidesPerPage_of_def or_else_def parseInt_def parseDigits_def digitValue_def
        isWhiteSpace_def Let_def)






lemma convertToPdf_Ok:
  assumes "convertToPdf env' f w = Ok u w1"
  shows "events w1 = events w @ [LibreOffice (inputPath env' f) (outputDir env')]"
  using assms by (auto simp: convertToPdf_def Let_def events_emit split: exec_result.splits)

lemma convertToPdf_Throw:
  assumes "convertToPdf env' f w = Throw m w1"
  shows "events w1 = events w @ [LibreOffice (inputPath env' f) (outputDir env')]"
  using assms by (auto simp: convertToPdf_def Let_def events_emit split: exec_result.splits)

lemma convertToPdf_not_Pending: "convertToPdf env' f w \<noteq> Pending w1"
  by (auto simp: convertToPdf_def Let_def split: exec_result.splits)

lemma compressPdf_cases:
  "(\<exists>w'. compressPdf env' a b w = Ok () w'
         \<and> (events w' = events w @ [Ghostscript a b]
            \<or> events w' = events w @ [Ghostscript a b, CopyFile a b]))
   \<or> (\<exists>w'. compressPdf env' a b w = Pending w' \<and> events w' = events w @ [Ghostscript a b])"
  by (auto simp: compressPdf_def copyFileSync_def Let_def events_emit split: option.splits)


lemma cleanupTemporary_events:
  "\<exists>us. events (cleanupTemporary env' f lo w) = events w @ us \<and> list_all is_unlink us"
  by (simp add: cleanupTemporary_def Let_def events_cleanupFile)

lemma catchBlock_events:
  "\<exists>us. events (catchBlock env' f m w)
           = events w @ us @ [Json 500 (if m = [] then ''Conversion failed.'' else m)]
       \<and> list_all is_unlink us"
  by (simp add: catchBlock_def Let_def events_cleanupFile events_emit)

lemma deliver_events:
  "events (deliver env' f w)
     = events w @ (if \<not> existsSync (files w) (finalPdfPath env' f) \<or> transfer_fails env'
                   then [Download (finalPdfPath env' f) (baseFileName f @ ''.pdf'') False]
                   else [Download (finalPdfPath env' f) (baseFileName f @ ''.pdf'') True,
                         SetTimeout (finalPdfPath env' f) 1000])"
  by (simp add: deliver_def Let_def events_emit)

lemma unlinks_no_Merge: "list_all is_unlink us \<Longrightarrow> Merge p k \<notin> set us"
  by (induction us) auto

lemma unlinks_no_Json: "list_all is_unlink us \<Longrightarrow> Json n m \<notin> set us"
  by (induction us) auto

lemma tryBlock_default:
  "tryBlock env' f 1 w =
     (case convertToPdf env' f w of
        Throw message w1 \<Rightarrow> Throw message w1
      | Pending w1 \<Rightarrow> Pending w1
      | Ok u w1 \<Rightarrow>
          (case findConvertedPdf env' f (files w1) of
             None \<Rightarrow> Throw (''Converted PDF not found. Searched for: ''
                            @ join_comma (possibleNames env' f)) w1
           | Some libreOfficeOutput \<Rightarrow>
               (case compressPdf env' libreOfficeOutput (finalPdfPath env' f) w1 of
                  Throw message w3 \<Rightarrow> Throw message w3
                | Pending w3 \<Rightarrow> Pending w3
                | Ok u' w3 \<Rightarrow> Ok () (deliver env' f (cleanupTemporary env' f libreOfficeOutput w3)))))"
  by (simp add: tryBlock_def mergeStep_def split: result.splits option.splits)

text \<open>The events of a request that has a file and whose slidesPerPage is 1.\<close>

lemma convert_default_events:
  assumes "req_file req = Some f" and "slidesPerPage_of req = Some 1"
  shows "(\<exists>us m. events (convert env' req fs)
              = [LibreOffice (inputPath env' f) (outputDir env')] @ us @ [Json 500 m]
            \<and> list_all is_unlink us
            \<and> (\<forall>u w1. convertToPdf env' f \<lparr>files = fs, events = []\<rparr> = Ok u w1
                  \<longrightarrow> findConvertedPdf env' f (files w1) = None))
       \<or> (\<exists>lo rest u w1. convertToPdf env' f \<lparr>files = fs, events = []\<rparr> = Ok u w1
            \<and> findConvertedPdf env' f (files w1) = Some lo
            \<and> events (convert env' req fs)
                = [LibreOffice (inputPath env' f) (outputDir env'),
                   Ghostscript lo (finalPdfPath env' f)] @ rest
            \<and> (\<forall>p k. Merge p k \<notin> set rest) \<and> (\<forall>p. WriteFile p \<notin> set rest)
            \<and> (\<forall>n m. Json n m \<notin> set rest))"
proof -
  let ?w = "\<lparr>files = fs, events = []\<rparr>"
  have c: "convert env' req fs =
      (case tryBlock env' f 1 ?w of
         Ok u w' \<Rightarrow> w'
       | Throw message w' \<Rightarrow> catchBlock env' f message w'
       | Pending w' \<Rightarrow> w')"
    using assms by (simp add: convert_def validSlidesPerPage_def)
  show ?thesis
  proof (cases "convertToPdf env' f ?w")
    case (Throw m w1)
    from convertToPdf_Throw [OF this] have e: "events w1 = [LibreOffice (inputPath env' f) (outputDir env')]"
      by simp
    obtain us where "events (catchBlock env' f m w1)
           = events w1 @ us @ [Json 500 (if m = [] then ''Conversion failed.'' else m)]"
      and "list_all is_unlink us"
      using catchBlock_events by blast
    then show ?thesis using Throw e by (auto simp: c tryBlock_default)
  next
    case (Pending w1)
    then show ?thesis using convertToPdf_not_Pending by blast
  next
    case (Ok u w1)
    from convertToPdf_Ok [OF this] have e: "events w1 = [LibreOffice (inputPath env' f) (outputDir env')]"
      by simp
    show ?thesis
    proof (cases "findConvertedPdf env' f (files w1)")
      case None
      let ?m = "''Converted PDF not found. Searched for: '' @ join_comma (possibleNames env' f)"
      obtain us where "events (catchBlock env' f ?m w1)
           = events w1 @ us @ [Json 500 (if ?m = [] then ''Conversion failed.'' else ?m)]"
        and "list_all is_unlink us"
        using catchBlock_events by blast
      then show ?thesis using Ok None e by (auto simp: c tryBlock_default)
    next
      case (Some lo)
      let ?final = "finalPdfPath env' f"
      from compressPdf_cases [of env' lo ?final w1]
      consider (ok) w3 where "compressPdf env' lo ?final w1 = Ok () w3"
          "events w3 = events w1 @ [Ghostscript lo ?final]
           \<or> events w3 = events w1 @ [Ghostscript lo ?final, CopyFile lo ?final]"
        | (pending) w3 where "compressPdf env' lo ?final w1 = Pending w3"
          "events w3 = events w1 @ [Ghostscript lo ?final]"
        by blast
      then show ?thesis
      proof cases
        case pending
        then have "events (convert env' req fs)
              = [LibreOffice (inputPath env' f) (outputDir env'), Ghostscript lo ?final] @ []"
          using Ok Some e by (simp add: c tryBlock_default)
        then show ?thesis using Ok Some by (intro disjI2 exI conjI) auto
      next
        case ok
        obtain us where us: "events (cleanupTemporary env' f lo w3) = events w3 @ us"
          "list_all is_unlink us"
          using cleanupTemporary_events by blast
        let ?d = "(if \<not> existsSync (files (cleanupTemporary env' f lo w3)) ?final \<or> transfer_fails env'
                   then [Download ?final (baseFileName f @ ''.pdf'') False]
                   else [Download ?final (baseFileName f @ ''.pdf'') True, SetTimeout ?final 1000])"
        have "convert env' req fs = deliver env' f (cleanupTemporary env' f lo w3)"
          using Ok Some ok(1) by (simp add: c tryBlock_default)
        then have ev: "events (convert env' req fs) = events w3 @ us @ ?d"
          by (simp add: deliver_events us(1))
        from ok(2) obtain cs where cs: "events w3 = events w1 @ [Ghostscript lo ?final] @ cs"
          "cs = [] \<or> cs = [CopyFile lo ?final]" by auto
        have "events (convert env' req fs)
              = [LibreOffice (inputPath env' f) (outputDir env'), Ghostscript lo ?final] @ (cs @ us @ ?d)"
          using ev cs(1) e by simp
        moreover have "\<forall>p k. Merge p k \<notin> set (cs @ us @ ?d)"
          using cs(2) unlinks_no_Merge [OF us(2)] by auto
        moreover have "\<forall>p. WriteFile p \<notin> set (cs @ us @ ?d)"
        proof -
          have "WriteFile p \<notin> set us" for p using us(2) by (induction us) auto
          then show ?thesis using cs(2) by auto
        qed
        moreover have "\<forall>n m. Json n m \<notin> set (cs @ us @ ?d)"
          using cs(2) unlinks_no_Json [OF us(2)] by auto
        ultimately show ?thesis using Ok Some by blast
      qed
    qed
  qed
qed


text \<open>
  Claim C10. A request with no slidesPerPage in the body and none in the query is treated
  as slidesPerPage = 1: the value passes the validation, the request is never answered
  with the invalid-slidesPerPage error, nothing is merged and no intermediate file is
  written, and once LibreOffice has run and its output is found, the next thing that
  happens is the compression of that very file into the final path.
\<close>

theorem convert_default_slidesPerPage:
  assumes "body_slidesPerPage req = None" and "query_slidesPerPage req = None"
  shows "slidesPerPage_of req = Some 1
       \<and> 1 \<in> set validSlidesPerPage
       \<and> Json 400 ''Invalid slidesPerPage. Must be 1, 2, 3, 4, 6, or 9.''
           \<notin> set (events (convert env' req fs))
       \<and> (\<forall>p k. Merge p k \<notin> set (events (convert env' req fs)))
       \<and> (\<forall>p. WriteFile p \<notin> set (events (convert env' req fs)))
       \<and> (\<forall>f u w1 lo.
             req_file req = Some f \<longrightarrow>
             convertToPdf env' f \<lparr>files = fs, events = []\<rparr> = Ok u w1 \<longrightarrow>
             findConvertedPdf env' f (files w1) = Some lo \<longrightarrow>
             take 2 (events (convert env' req fs))
               = [LibreOffice (inputPath env' f) (outputDir env'),
                  Ghostscript lo (finalPdfPath env' f)])"
proof -
  have one: "slidesPerPage_of req = Some 1" by (rule slidesPerPage_default [OF assms])
  have valid: "1 \<in> set validSlidesPerPage" by (simp add: validSlidesPerPage_def)
  show ?thesis
  proof (cases "req_file req")
    case None
    then have "events (convert env' req fs) = [Json 400 ''No file uploaded.'']"
      by (simp add: convert_def events_emit)
    with None one valid show ?thesis by simp
  next
    case (Some f)
    from convert_default_events [OF Some one, of env' fs]
    show ?thesis
    proof (elim disjE exE conjE)
      fix us m
      assume e: "events (convert env' req fs)
                  = [LibreOffice (inputPath env' f) (outputDir env')] @ us @ [Json 500 m]"
        and u: "list_all is_unlink us"
        and n: "\<forall>u w1. convertToPdf env' f \<lparr>files = fs, events = []\<rparr> = Ok u w1
                  \<longrightarrow> findConvertedPdf env' f (files w1) = None"
      have "Merge p k \<notin> set us" for p k using u by (rule unlinks_no_Merge)
      moreover have "Json a b \<notin> set us" for a b using u by (rule unlinks_no_Json)
      moreover have "WriteFile p \<notin> set us" for p using u by (induction us) auto
      ultimately show ?thesis using one valid Some e n by auto
    next
      fix lo rest u w1
      assume c: "convertToPdf env' f \<lparr>files = fs, events = []\<rparr> = Ok u w1"
        and l: "findConvertedPdf env' f (files w1) = Some lo"
        and e: "events (convert env' req fs)
                  = [LibreOffice (inputPath env' f) (outputDir env'),
                     Ghostscript lo (finalPdfPath env' f)] @ rest"
        and r: "\<forall>p k. Merge p k \<notin> set rest" "\<forall>p. WriteFile p \<notin> set rest"
               "\<forall>n m. Json n m \<notin> set rest"
      show ?thesis using one valid Some c l e r by auto
    qed
  qed
qed

lemma sample_convertToPdf:
  "convertToPdf sample_env sample_upload \<lparr>files = sample_fs, events = []\<rparr>
     = Ok () \<lparr>files = [(''/app/uploads/3f2a'', \<lparr>content = ''pptx'', mtime = 1\<rparr>),
                        (''/app/converted/3f2a.pdf'', \<lparr>content = ''pdf'', mtime = 5\<rparr>)],
              events = [LibreOffice ''/app/uploads/3f2a'' ''/app/converted'']\<rparr>"
  by code_simp

lemma sample_findConvertedPdf:
  "findConvertedPdf sample_env sample_upload
     [(''/app/uploads/3f2a'', \<lparr>content = ''pptx'', mtime = 1\<rparr>),
      (''/app/converted/3f2a.pdf'', \<lparr>content = ''pdf'', mtime = 5\<rparr>)]
     = Some ''/app/converted/3f2a.pdf''"
  by code_simp

lemma sample_paths:
  "inputPath sample_env sample_upload = ''/app/uploads/3f2a''"
  "outputDir sample_env = ''/app/converted''"
  "finalPdfPath sample_env sample_upload = ''/app/converted/deck.pdf''"
  "tempPdfPath sample_env sample_upload = ''/app/converted/deck_temp.pdf''"
  "baseFileName sample_upload = ''deck''"
  by code_simp+

text \<open>The sample upload without a slidesPerPage.\<close>

theorem convert_default_slidesPerPage_witness:
  "body_slidesPerPage (sample_request None) = None
   \<and> query_slidesPerPage (sample_request None) = None
   \<and> slidesPerPage_of (sample_request None) = Some 1
   \<and> take 2 (events (convert sample_env (sample_request None) sample_fs))
       = [LibreOffice ''/app/uploads/3f2a'' ''/app/converted'',
          Ghostscript ''/app/converted/3f2a.pdf'' ''/app/converted/deck.pdf'']"
proof -
  have h1: "body_slidesPerPage (sample_request None) = None"
    and h2: "query_slidesPerPage (sample_request None) = None"
    and h3: "req_file (sample_request None) = Some sample_upload"
    by (simp_all add: sample_request_def)
  from convert_default_slidesPerPage [OF h1 h2, of sample_env sample_fs]
  have "slidesPerPage_of (sample_request None) = Some 1"
    and "\<forall>f u w1 lo.
             req_file (sample_request None) = Some f \<longrightarrow>
             convertToPdf sample_env f \<lparr>files = sample_fs, events = []\<rparr> = Ok u w1 \<longrightarrow>
             findConvertedPdf sample_env f (files w1) = Some lo \<longrightarrow>
             take 2 (events (convert sample_env (sample_request None) sample_fs))
               = [LibreOffice (inputPath sample_env f) (outputDir sample_env),
                  Ghostscript lo (finalPdfPath sample_env f)]"
    by blast+
  with h3 sample_convertToPdf sample_findConvertedPdf
  have "slidesPerPage_of (sample_request None) = Some 1"
    and "take 2 (events (convert sample_env (sample_request None) sample_fs))
               = [LibreOffice (inputPath sample_env sample_upload) (outputDir sample_env),
                  Ghostscript ''/app/converted/3f2a.pdf'' (finalPdfPath sample_env sample_upload)]"
    by (simp, fastforce)
  then show ?thesis using h1 h2 by (simp add: sample_paths)
qed


lemma timerPaths_append: "timerPaths (es @ es') = timerPaths es @ timerPaths es'"
  by (induction es rule: timerPaths.induct) auto

lemma not_exists_after_cleanupFile: "\<not> existsSync (files (cleanupFile p w)) p"
  by (simp add: existsSync_def files_cleanupFile)

text \<open>
  Claim C9, as the code has it. When the response was sent, the handler schedules the
  removal of the final file 1000 ms later, and when that timer has run the file is gone.
  When the transfer fails (or the final file is missing), the error is only logged: no
  removal is scheduled, and the file stays. In src/index.js a failed transfer likewise
  leaves the converted file (and the upload) in place, and a successful one removes the
  converted file at once, in the callback.
\<close>

theorem deliver_cleanup:
  "(timerPaths (events w) = [] \<longrightarrow>
      existsSync (files w) (finalPdfPath env' f) \<and> \<not> transfer_fails env' \<longrightarrow>
        events (deliver env' f w)
          = events w @ [Download (finalPdfPath env' f) (baseFileName f @ ''.pdf'') True,
                        SetTimeout (finalPdfPath env' f) 1000]
      \<and> existsSync (files (deliver env' f w)) (finalPdfPath env' f)
      \<and> events (fireTimers (deliver env' f w))
          = events (deliver env' f w) @ [Unlink (finalPdfPath env' f)]
      \<and> \<not> existsSync (files (fireTimers (deliver env' f w))) (finalPdfPath env' f))
   \<and> (timerPaths (events w) = [] \<longrightarrow>
      transfer_fails env' \<or> \<not> existsSync (files w) (finalPdfPath env' f) \<longrightarrow>
        events (deliver env' f w)
          = events w @ [Download (finalPdfPath env' f) (baseFileName f @ ''.pdf'') False]
      \<and> files (deliver env' f w) = files w
      \<and> fireTimers (deliver env' f w) = deliver env' f w)
   \<and> (req_file req = Some f \<longrightarrow>
      libreoffice env' (inputPath env' f) (outputDir env') fs = (ExecOk, fs1) \<longrightarrow>
      existsSync fs1 (path_join (outputDir env') (replace_pptx (originalname f) ''.pdf'')) \<longrightarrow>
        (transfer_fails env' \<longrightarrow>
           convert_index env' req fs
             = \<lparr>files = fs1,
                events = [LibreOffice (inputPath env' f) (outputDir env'),
                          Download (path_join (outputDir env') (replace_pptx (originalname f) ''.pdf''))
                            (replace_pptx (originalname f) ''.pdf'') False]\<rparr>)
      \<and> (\<not> transfer_fails env' \<longrightarrow>
           take 2 (events (convert_index env' req fs))
             = [LibreOffice (inputPath env' f) (outputDir env'),
                Download (path_join (outputDir env') (replace_pptx (originalname f) ''.pdf''))
                  (replace_pptx (originalname f) ''.pdf'') True]
         \<and> \<not> existsSync (files (convert_index env' req fs))
               (path_join (outputDir env') (replace_pptx (originalname f) ''.pdf''))))"
proof (intro conjI impI)
  let ?final = "finalPdfPath env' f"
  let ?name = "baseFileName f @ ''.pdf''"
  {
    assume t: "timerPaths (events w) = []"
      and ok: "existsSync (files w) ?final \<and> \<not> transfer_fails env'"
    have d: "deliver env' f w = emit (SetTimeout ?final 1000) (emit (Download ?final ?name True) w)"
      using ok by (simp add: deliver_def Let_def)
    show e: "events (deliver env' f w) = events w @ [Download ?final ?name True, SetTimeout ?final 1000]"
      by (simp add: d events_emit)
    show x: "existsSync (files (deliver env' f w)) ?final"
      using ok by (simp add: d files_emit)
    have tp: "timerPaths (events (deliver env' f w)) = [?final]"
      by (simp add: e timerPaths_append t)
    have ft: "fireTimers (deliver env' f w) = cleanupFile ?final (deliver env' f w)"
      by (simp add: fireTimers_def tp)
    show "events (fireTimers (deliver env' f w)) = events (deliver env' f w) @ [Unlink ?final]"
      using x by (simp add: ft events_cleanupFile)
    show "\<not> existsSync (files (fireTimers (deliver env' f w))) ?final"
      by (simp add: ft not_exists_after_cleanupFile)
  }
  {
    assume t: "timerPaths (events w) = []"
      and err: "transfer_fails env' \<or> \<not> existsSync (files w) ?final"
    have d: "deliver env' f w = emit (Download ?final ?name False) w"
      using err by (auto simp: deliver_def Let_def)
    show e: "events (deliver env' f w) = events w @ [Download ?final ?name False]"
      by (simp add: d events_emit)
    show "files (deliver env' f w) = files w"
      by (simp add: d files_emit)
    have "timerPaths (events (deliver env' f w)) = []"
      by (simp add: e timerPaths_append t)
    then show "fireTimers (deliver env' f w) = deliver env' f w"
      by (simp add: fireTimers_def)
  }
  let ?outName = "replace_pptx (originalname f) ''.pdf''"
  let ?out = "path_join (outputDir env') ?outName"
  let ?lo = "LibreOffice (inputPath env' f) (outputDir env')"
  {
    assume f: "req_file req = Some f"
      and lo: "libreoffice env' (inputPath env' f) (outputDir env') fs = (ExecOk, fs1)"
      and x: "existsSync fs1 ?out"
    {
      assume "transfer_fails env'"
      then show "convert_index env' req fs
          = \<lparr>files = fs1, events = [?lo, Download ?out ?outName False]\<rparr>"
        using f lo x by (simp add: convert_index_def Let_def emit_def)
    }
    {
      assume ok: "\<not> transfer_fails env'"
      let ?w2 = "\<lparr>files = fs1, events = [?lo, Download ?out ?outName True]\<rparr>"
      have c: "convert_index env' req fs = cleanupFile ?out (cleanupFile (inputPath env' f) ?w2)"
        using f lo x ok by (simp add: convert_index_def Let_def emit_def)
      show "take 2 (events (convert_index env' req fs)) = [?lo, Download ?out ?outName True]"
        by (simp add: c events_cleanupFile)
      show "\<not> existsSync (files (convert_index env' req fs)) ?out"
        by (simp add: c not_exists_after_cleanupFile)
    }
  }
qed


text \<open>
  A final file delivered with and without a transfer error, and a named upload in the
  handler of src/index.js.
\<close>

theorem deliver_cleanup_witness:
  "events (fireTimers (deliver sample_env sample_upload
       \<lparr>files = [(''/app/converted/deck.pdf'', \<lparr>content = ''small'', mtime = 6\<rparr>)], events = []\<rparr>))
     = [Download ''/app/converted/deck.pdf'' ''deck.pdf'' True,
        SetTimeout ''/app/converted/deck.pdf'' 1000,
        Unlink ''/app/converted/deck.pdf'']
   \<and> fireTimers (deliver sample_env_transfer_fails sample_upload
       \<lparr>files = [(''/app/converted/deck.pdf'', \<lparr>content = ''small'', mtime = 6\<rparr>)], events = []\<rparr>)
     = \<lparr>files = [(''/app/converted/deck.pdf'', \<lparr>content = ''small'', mtime = 6\<rparr>)],
        events = [Download ''/app/converted/deck.pdf'' ''deck.pdf'' False]\<rparr>
   \<and> convert_index sample_env_transfer_fails
        \<lparr>req_file = Some sample_upload_named, body_slidesPerPage = None, query_slidesPerPage = None\<rparr>
        [(''/app/uploads/deck'', \<lparr>content = ''pptx'', mtime = 1\<rparr>)]
     = \<lparr>files = [(''/app/uploads/deck'', \<lparr>content = ''pptx'', mtime = 1\<rparr>),
                 (''/app/converted/deck.pdf'', \<lparr>content = ''pdf'', mtime = 5\<rparr>)],
        events = [LibreOffice ''/app/uploads/deck'' ''/app/converted'',
                  Download ''/app/converted/deck.pdf'' ''deck.pdf'' False]\<rparr>"
proof -
  let ?w = "\<lparr>files = [(''/app/converted/deck.pdf'', \<lparr>content = ''small'', mtime = 6\<rparr>)], events = []\<rparr>"
  let ?req = "\<lparr>req_file = Some sample_upload_named, body_slidesPerPage = None, query_slidesPerPage = None\<rparr>"
  let ?fs = "[(''/app/uploads/deck'', \<lparr>content = ''pptx'', mtime = 1\<rparr>)]"
  let ?fs1 = "[(''/app/uploads/deck'', \<lparr>content = ''pptx'', mtime = 1\<rparr>),
               (''/app/converted/deck.pdf'', \<lparr>content = ''pdf'', mtime = 5\<rparr>)]"
  have t: "timerPaths (events ?w) = []" by simp
  have p: "finalPdfPath sample_env sample_upload = ''/app/converted/deck.pdf''"
    "finalPdfPath sample_env_transfer_fails sample_upload = ''/app/converted/deck.pdf''"
    "baseFileName sample_upload = ''deck''"
    "inputPath sample_env_transfer_fails sample_upload_named = ''/app/uploads/deck''"
    "outputDir sample_env_transfer_fails = ''/app/converted''"
    "replace_pptx (originalname sample_upload_named) ''.pdf'' = ''deck.pdf''"
    "path_join ''/app/converted'' ''deck.pdf'' = ''/app/converted/deck.pdf''"
    by code_simp+
  have x: "existsSync (files ?w) ''/app/converted/deck.pdf''" by (simp add: existsSync_def)
  have ok: "\<not> transfer_fails sample_env" by (simp add: sample_env_def)
  have bad: "transfer_fails sample_env_transfer_fails"
    by (simp add: sample_env_transfer_fails_def)
  have f: "req_file ?req = Some sample_upload_named" by simp
  have lo: "libreoffice sample_env_transfer_fails ''/app/uploads/deck'' ''/app/converted'' ?fs
      = (ExecOk, ?fs1)" by code_simp
  have x1: "existsSync ?fs1 ''/app/converted/deck.pdf''" by (simp add: existsSync_def)
  from deliver_cleanup [of ?w sample_env sample_upload] t x ok
  have a: "events (fireTimers (deliver sample_env sample_upload ?w))
     = [Download ''/app/converted/deck.pdf'' ''deck.pdf'' True,
        SetTimeout ''/app/converted/deck.pdf'' 1000,
        Unlink ''/app/converted/deck.pdf'']"
    by (simp add: p)
  from deliver_cleanup [of ?w sample_env_transfer_fails sample_upload] t bad
  have b: "fireTimers (deliver sample_env_transfer_fails sample_upload ?w)
     = \<lparr>files = files ?w, events = [Download ''/app/converted/deck.pdf'' ''deck.pdf'' False]\<rparr>"
    by (simp add: p)
  from deliver_cleanup [of _ sample_env_transfer_fails sample_upload_named ?req ?fs ?fs1] f lo x1 bad
  have c: "convert_index sample_env_transfer_fails ?req ?fs
     = \<lparr>files = ?fs1,
        events = [LibreOffice ''/app/uploads/deck'' ''/app/converted'',
                  Download ''/app/converted/deck.pdf'' ''deck.pdf'' False]\<rparr>"
    by (simp add: p)
  from a b c show ?thesis by simp
qed

text \<open>
  Claim C9 as stated fails: with a transfer error the job ends with the final file still
  on disk, also after the timers have run, and no removal of it is ever attempted.
\<close>

theorem delivery_error_counterexample:
  "events (fireTimers (convert sample_env_transfer_fails (sample_request None) sample_fs))
     = [LibreOffice ''/app/uploads/3f2a'' ''/app/converted'',
        Ghostscript ''/app/converted/3f2a.pdf'' ''/app/converted/deck.pdf'',
        Unlink ''/app/uploads/3f2a'',
        Unlink ''/app/converted/3f2a.pdf'',
        Download ''/app/converted/deck.pdf'' ''deck.pdf'' False]
   \<and> existsSync (files (fireTimers (convert sample_env_transfer_fails (sample_request None) sample_fs)))
        ''/app/converted/deck.pdf''"
  by code_simp

text \<open>
  Claim C5 fails on the code. LibreOffice names its output after the stored upload, here
  \<open>3f2a.pdf\<close>; when pdf-lib then cannot load it, the \<open>catch\<close> block removes the
  upload and answers 500, but the converted file is never unlinked and stays in the
  output directory. (After a successful compression the same file is removed.)
\<close>

theorem catch_leaves_converted_pdf:
  "events (fireTimers (convert sample_env_bad_pdf (sample_request (Some ''2'')) sample_fs))
     = [LibreOffice ''/app/uploads/3f2a'' ''/app/converted'',
        Merge ''/app/converted/3f2a.pdf'' 2,
        Unlink ''/app/uploads/3f2a'',
        Json 500 ''Failed to parse PDF document'']
   \<and> existsSync (files (fireTimers (convert sample_env_bad_pdf (sample_request (Some ''2'')) sample_fs)))
        ''/app/converted/3f2a.pdf''"
  by code_simp







end
